theory Spec2Isabelle
  imports Main "HOL-Library.Word"
begin

section \<open>The LDAP debug API of pkg/api/ldap\_debug.go\<close>

text \<open>
  The handlers of \<^verbatim>\<open>pkg/api/ldap_debug.go\<close> talk to collaborators that live in other
  packages: the LDAP client (\<^verbatim>\<open>multildap\<close>), the message bus, the \<^verbatim>\<open>login\<close> and
  \<^verbatim>\<open>setting\<close> packages and the logger. A handler is modelled as a function of an
  environment holding what each collaborator answers; it returns its response together
  with the list of collaborator calls it made, in the order of the source. No handler
  reads the answers of two calls to the same collaborator, so an answer that depends on
  the arguments alone stands for whatever state the collaborator is in. A pointer the
  source tests or may find nil is an \<open>option\<close>; the elements of the slices of pointers
  (servers, group mappings, statuses, organizations) are taken to be records.
\<close>

subsection \<open>Data model\<close>

text \<open>\<^verbatim>\<open>int64\<close> is a 64-bit word; \<^verbatim>\<open>models.RoleType\<close> is a string type.\<close>

type_synonym int64 = "64 word"
type_synonym RoleType = string

text \<open>
  Go's \<^verbatim>\<open>error\<close> values. The three sentinels are the ones the source compares with
  \<^verbatim>\<open>==\<close>; \<open>OrganizationNotFound orgId\<close> is the value of
  \<^verbatim>\<open>errOrganizationNotFound(orgId)\<close>; every other error is \<open>OtherError\<close> with its text.
\<close>

datatype error =
    ErrUserNotFound
  | ErrCouldNotFindUser
  | ErrHandlerNotFound
  | OrganizationNotFound int64
  | OtherError string

definition errOrganizationNotFound :: "int64 \<Rightarrow> error" where
  "errOrganizationNotFound orgId = OrganizationNotFound orgId"

record LDAPAttribute =
  ConfigAttributeValue :: string
  LDAPAttributeValue :: string

record RoleDTO =
  OrgId :: int64
  OrgName :: string
  OrgRole :: RoleType
  GroupDN :: string

text \<open>\<^verbatim>\<open>models.TeamOrgGroupDTO\<close> is only passed through.\<close>

typedecl TeamOrgGroupDTO

record LDAPUserDTO =
  Name :: "LDAPAttribute option"
  Surname :: "LDAPAttribute option"
  Email :: "LDAPAttribute option"
  Username :: "LDAPAttribute option"
  IsGrafanaAdmin :: "bool option"
  IsDisabled :: bool
  OrgRoles :: "RoleDTO list"
  Teams :: "TeamOrgGroupDTO list"

record LDAPServerDTO =
  Host :: string
  Port :: int
  Available :: bool
  Error :: string

text \<open>
  The records of the packages \<^verbatim>\<open>models\<close> and \<^verbatim>\<open>ldap\<close>, with the fields the source
  reads. A Go map \<^verbatim>\<open>map[int64]RoleType\<close> is a partial function.
\<close>

record ExternalUserInfo =
  Name :: string
  Email :: string
  Login :: string
  IsGrafanaAdmin :: "bool option"
  IsDisabled :: bool
  OrgRoles :: "int64 \<rightharpoonup> RoleType"
  Groups :: "string list"

record GroupToOrgRole =
  GroupDN :: string
  OrgID :: int64
  OrgRole :: RoleType

record AttributeMap =
  Username :: string
  Name :: string
  Surname :: string
  Email :: string

record ServerConfig =
  Host :: string
  Port :: int
  Attr :: AttributeMap
  Groups :: "GroupToOrgRole list"

record Config =
  Servers :: "ServerConfig list"

record ServerStatus =
  Host :: string
  Port :: int
  Available :: bool
  Error :: "error option"

record User =
  Login :: string

record Org =
  Id :: int64
  Name :: string

record UpsertUserCommand =
  ExternalUser :: "ExternalUserInfo option"
  SignupAllowed :: bool

record ReqContext =
  Params :: "string \<Rightarrow> string"
  ParamsInt64 :: "string \<Rightarrow> int64"

text \<open>
  Indexing a Go map with a key it does not hold gives the zero value of the value type,
  here the empty string.
\<close>

definition map_index :: "('k \<rightharpoonup> string) \<Rightarrow> 'k \<Rightarrow> string" where
  "map_index m k = (case m k of None \<Rightarrow> [] | Some v \<Rightarrow> v)"

subsection \<open>Name splitting\<close>

text \<open>
  Modelled from the spec: \<^verbatim>\<open>util.SplitString\<close> (package \<^verbatim>\<open>pkg/util\<close>) is not among the
  sources. The spec says that the name is split into whitespace-delimited tokens: the
  tokens are the maximal runs of characters that are not whitespace.
\<close>

definition isSpace :: "char \<Rightarrow> bool" where
  "isSpace c = (c = CHR '' '' \<or> c = CHR 0x09 \<or> c = CHR 0x0A \<or> c = CHR 0x0B
               \<or> c = CHR 0x0C \<or> c = CHR 0x0D)"

fun tokens :: "string \<Rightarrow> string \<Rightarrow> string list" where
  "tokens cur [] = (if cur = [] then [] else [cur])"
| "tokens cur (c # cs) =
     (if isSpace c then (if cur = [] then tokens [] cs else cur # tokens [] cs)
      else tokens (cur @ [c]) cs)"

definition SplitString :: "string \<Rightarrow> string list" where
  "SplitString str = tokens [] str"

text \<open>The \<^verbatim>\<open>switch len(names)\<close> of \<^verbatim>\<open>splitName\<close>.\<close>

definition splitName :: "string \<Rightarrow> string \<times> string" where
  "splitName name =
     (let names = SplitString name in
      if length names = 0 then ([], [])
      else if length names = 1 then (names ! 0, [])
      else (names ! 0, names ! 1))"

subsection \<open>Matching LDAP groups to organization roles\<close>

definition isMatchToLDAPGroup :: "ExternalUserInfo \<Rightarrow> GroupToOrgRole \<Rightarrow> bool" where
  "isMatchToLDAPGroup user groupConfig =
     (map_index (ExternalUserInfo.OrgRoles user) (OrgID groupConfig)
        = GroupToOrgRole.OrgRole groupConfig)"

text \<open>\<^verbatim>\<open>&RoleDTO{}\<close>: every field has its zero value.\<close>

definition RoleDTO_zero :: RoleDTO where
  "RoleDTO_zero = \<lparr>OrgId = 0, OrgName = [], RoleDTO.OrgRole = [], RoleDTO.GroupDN = []\<rparr>"

text \<open>
  The body of the loop over \<^verbatim>\<open>serverConfig.Groups\<close> in \<^verbatim>\<open>GetUserFromLDAP\<close>: one
  \<^verbatim>\<open>append\<close> in each branch.
\<close>

definition orgRoles_step ::
  "ExternalUserInfo \<Rightarrow> RoleDTO list \<Rightarrow> GroupToOrgRole \<Rightarrow> RoleDTO list" where
  "orgRoles_step user orgRoles g =
     (let role = RoleDTO_zero in
      if isMatchToLDAPGroup user g then
        orgRoles @ [role\<lparr>OrgId := OrgID g,
                          RoleDTO.OrgRole := map_index (ExternalUserInfo.OrgRoles user) (OrgID g),
                          RoleDTO.GroupDN := GroupToOrgRole.GroupDN g\<rparr>]
      else
        orgRoles @ [role\<lparr>OrgId := OrgID g,
                          RoleDTO.GroupDN := GroupToOrgRole.GroupDN g\<rparr>])"

definition mapOrgRoles :: "ExternalUserInfo \<Rightarrow> GroupToOrgRole list \<Rightarrow> RoleDTO list" where
  "mapOrgRoles user groups = foldl (orgRoles_step user) [] groups"

subsection \<open>The collaborators\<close>

text \<open>
  What the code of other packages answers when the handlers call it. A Go function that
  returns a value and an error is a pair: the source tests the two independently, and
  dereferencing a nil pointer panics. \<open>error_Error\<close> is the method \<^verbatim>\<open>Error()\<close> of the
  error values.
\<close>

record Env =
  ldap_IsEnabled :: bool
  ldap_ReloadConfig :: "error option"
  getLDAPConfig :: "Config option \<times> error option"
  ldap_Ping :: "ServerConfig list \<Rightarrow> ServerStatus list \<times> error option"
  ldap_User :: "ServerConfig list \<Rightarrow> string
                 \<Rightarrow> ExternalUserInfo option \<times> ServerConfig option \<times> error option"
  bus_GetUserByIdQuery :: "int64 \<Rightarrow> User option \<times> error option"
  bus_UpsertUserCommand :: "UpsertUserCommand \<Rightarrow> error option"
  bus_SearchOrgsQuery :: "int64 list \<Rightarrow> Org list \<times> error option"
  bus_GetTeamsForLDAPGroupCommand :: "string list \<Rightarrow> TeamOrgGroupDTO list \<times> error option"
  setting_AdminUser :: string
  setting_LDAPAllowSignup :: bool
  error_Error :: "error \<Rightarrow> string"

text \<open>
  The calls a handler makes to its collaborators. \<open>Dispatch_GetUserByIdQuery_value\<close> is
  \<^verbatim>\<open>bus.Dispatch(query)\<close>, with the query passed by value, and
  \<open>Dispatch_GetUserByIdQuery\<close> is \<^verbatim>\<open>bus.Dispatch(&query)\<close>.
\<close>

datatype call =
    Call_ReloadConfig
  | Call_getLDAPConfig
  | Call_newLDAP "ServerConfig list"
  | Call_Ping
  | Call_User string
  | Dispatch_GetUserByIdQuery_value int64
  | Dispatch_GetUserByIdQuery int64
  | Dispatch_UpsertUserCommand UpsertUserCommand
  | Dispatch_SearchOrgsQuery "int64 list"
  | Dispatch_GetTeamsForLDAPGroupCommand "string list"
  | Call_DisableExternalUser string
  | Call_logger_Error string
  | Call_logger_Debug string

text \<open>The calls that change the user store.\<close>

fun is_disable :: "call \<Rightarrow> bool" where
  "is_disable (Call_DisableExternalUser l) = True"
| "is_disable _ = False"

fun is_upsert :: "call \<Rightarrow> bool" where
  "is_upsert (Dispatch_UpsertUserCommand cmd) = True"
| "is_upsert _ = False"

subsection \<open>Responses\<close>

datatype body =
    Message string
  | ServerDTOs "LDAPServerDTO list"
  | UserDTO LDAPUserDTO

text \<open>
  The response builders \<^verbatim>\<open>Error(status, message, err)\<close>, \<^verbatim>\<open>Success(message)\<close> and
  \<^verbatim>\<open>JSON(status, body)\<close> of package \<^verbatim>\<open>api\<close>.
\<close>

datatype Response =
    Error int string "error option"
  | Success string
  | JSON int body

text \<open>A handler returns a response, or panics on a nil pointer.\<close>

datatype outcome = Return Response | Panic

definition StatusOK :: int where "StatusOK = 200"
definition StatusBadRequest :: int where "StatusBadRequest = 400"
definition StatusNotFound :: int where "StatusNotFound = 404"
definition StatusInternalServerError :: int where "StatusInternalServerError = 500"

subsection \<open>FetchOrgs\<close>

text \<open>The first loop: the organization ids of the roles, in order.\<close>

definition collect_orgIds :: "RoleDTO list \<Rightarrow> int64 list" where
  "collect_orgIds roles = foldl (\<lambda>orgIds r. orgIds @ [OrgId r]) [] roles"

text \<open>The second loop: \<^verbatim>\<open>orgNamesById[org.Id] = org.Name\<close> for each record of the result.\<close>

definition orgNamesById :: "Org list \<Rightarrow> (int64 \<rightharpoonup> string)" where
  "orgNamesById result = foldl (\<lambda>m org. m(Id org \<mapsto> Org.Name org)) Map.empty result"

text \<open>
  The third loop, over the indices of \<^verbatim>\<open>user.OrgRoles\<close>: it writes the name into the
  role at index \<open>i\<close> and goes on, or returns the error at the first id without a name.
\<close>

function fill_orgNames ::
  "(int64 \<rightharpoonup> string) \<Rightarrow> nat \<Rightarrow> RoleDTO list \<Rightarrow> error option \<times> RoleDTO list" where
  "fill_orgNames names i roles =
     (if i < length roles then
        (let orgDTO = roles ! i;
             orgName = map_index names (OrgId orgDTO) in
         if orgName \<noteq> [] then
           fill_orgNames names (Suc i) (roles[i := (roles ! i)\<lparr>OrgName := orgName\<rparr>])
         else (Some (errOrganizationNotFound (OrgId orgDTO)), roles))
      else (None, roles))"
  by pat_completeness auto
termination
  by (relation "measure (\<lambda>(names, i, roles). length roles - i)") auto

declare fill_orgNames.simps [simp del]

text \<open>
  \<^verbatim>\<open>FetchOrgs\<close> returns its error, the DTO as the method leaves it, and the calls made.
\<close>

definition FetchOrgs :: "Env \<Rightarrow> LDAPUserDTO \<Rightarrow> (error option \<times> LDAPUserDTO) \<times> call list" where
  "FetchOrgs env user =
     (let orgIds = collect_orgIds (LDAPUserDTO.OrgRoles user);
          (result, err) = bus_SearchOrgsQuery env orgIds;
          tr = [Dispatch_SearchOrgsQuery orgIds] in
      if err \<noteq> None then ((err, user), tr)
      else
        (let (err, roles) = fill_orgNames (orgNamesById result) 0 (LDAPUserDTO.OrgRoles user) in
         ((err, user\<lparr>LDAPUserDTO.OrgRoles := roles\<rparr>), tr)))"

subsection \<open>The handlers\<close>

definition ReloadLDAPCfg :: "Env \<Rightarrow> outcome \<times> call list" where
  "ReloadLDAPCfg env =
     (if \<not> ldap_IsEnabled env then
        (Return (Error StatusBadRequest ''LDAP is not enabled'' None), [])
      else
        (let err = ldap_ReloadConfig env;
             tr = [Call_ReloadConfig] in
         if err \<noteq> None then
           (Return (Error StatusInternalServerError ''Failed to reload ldap config.'' err), tr)
         else (Return (Success ''LDAP config reloaded''), tr)))"

text \<open>The body of the loop over the statuses in \<^verbatim>\<open>GetLDAPStatus\<close>.\<close>

definition serverDTOs_step ::
  "Env \<Rightarrow> LDAPServerDTO list \<Rightarrow> ServerStatus \<Rightarrow> LDAPServerDTO list" where
  "serverDTOs_step env serverDTOs status =
     (let s = \<lparr>LDAPServerDTO.Host = ServerStatus.Host status,
                LDAPServerDTO.Port = ServerStatus.Port status,
                LDAPServerDTO.Available = ServerStatus.Available status,
                LDAPServerDTO.Error = []\<rparr>;
          s = (case ServerStatus.Error status of
                 Some e \<Rightarrow> s\<lparr>LDAPServerDTO.Error := error_Error env e\<rparr>
               | None \<Rightarrow> s) in
      serverDTOs @ [s])"

definition GetLDAPStatus :: "Env \<Rightarrow> ReqContext \<Rightarrow> outcome \<times> call list" where
  "GetLDAPStatus env c =
     (if \<not> ldap_IsEnabled env then
        (Return (Error StatusBadRequest ''LDAP is not enabled'' None), [])
      else
        (let (ldapConfig, err) = getLDAPConfig env;
             tr = [Call_getLDAPConfig] in
         if err \<noteq> None then
           (Return (Error StatusBadRequest
              ''Failed to obtain the LDAP configuration. Please verify the configuration and try again.''
              err), tr)
         else
           (case ldapConfig of
              None \<Rightarrow> (Panic, tr)
            | Some cfg \<Rightarrow>
                (let tr = tr @ [Call_newLDAP (Servers cfg)];
                     (statuses, err) = ldap_Ping env (Servers cfg);
                     tr = tr @ [Call_Ping] in
                 if err \<noteq> None then
                   (Return (Error StatusBadRequest ''Failed to connect to the LDAP server(s)'' err),
                    tr)
                 else
                   (Return (JSON StatusOK (ServerDTOs (foldl (serverDTOs_step env) [] statuses))),
                    tr)))))"

text \<open>
  \<^verbatim>\<open>fmt.Sprintf\<close> with the format
  \<^verbatim>\<open>Refusing to sync grafana super admin "%s" - it would be disabled\<close>.
\<close>

definition refuse_message :: "string \<Rightarrow> string" where
  "refuse_message l =
     ''Refusing to sync grafana super admin '' @ [CHR 0x22] @ l @ [CHR 0x22]
       @ '' - it would be disabled''"

text \<open>
  In \<^verbatim>\<open>PostSyncUserWithLDAP\<close> the error of the first dispatch, \<^verbatim>\<open>bus.Dispatch(query)\<close>,
  is overwritten before it is read. After the lookup in the directory, the block
  \<^verbatim>\<open>if err != nil\<close> returns only inside \<^verbatim>\<open>if err == ldap.ErrCouldNotFindUser\<close>; any other
  error leaves the block and reaches the upsert.
\<close>

definition PostSyncUserWithLDAP :: "Env \<Rightarrow> ReqContext \<Rightarrow> outcome \<times> call list" where
  "PostSyncUserWithLDAP env c =
     (if \<not> ldap_IsEnabled env then
        (Return (Error StatusBadRequest ''LDAP is not enabled'' None), [])
      else
        (let (ldapConfig, err) = getLDAPConfig env;
             tr = [Call_getLDAPConfig] in
         if err \<noteq> None then
           (Return (Error StatusBadRequest
              ''Failed to obtain the LDAP configuration. Please verify the configuration and try again.''
              err), tr)
         else
           (let userId = ParamsInt64 c '':id'';
                tr = tr @ [Dispatch_GetUserByIdQuery_value userId];
                (result, err) = bus_GetUserByIdQuery env userId;
                tr = tr @ [Dispatch_GetUserByIdQuery userId] in
            if err \<noteq> None then
              (if err = Some ErrUserNotFound then
                 (Return (Error 404 (error_Error env ErrUserNotFound) None), tr)
               else (Return (Error 500 ''Failed to get user'' err), tr))
            else
              (case ldapConfig of
                 None \<Rightarrow> (Panic, tr)
               | Some cfg \<Rightarrow>
                   (let tr = tr @ [Call_newLDAP (Servers cfg)] in
                    case result of
                      None \<Rightarrow> (Panic, tr)
                    | Some u \<Rightarrow>
                        (let (user, _, err) = ldap_User env (Servers cfg) (User.Login u);
                             tr = tr @ [Call_User (User.Login u)] in
                         if err \<noteq> None \<and> err = Some ErrCouldNotFindUser then
                           (if setting_AdminUser env = User.Login u then
                              (let errMsg = refuse_message (User.Login u);
                                   tr = tr @ [Call_logger_Error errMsg] in
                               (Return (Error StatusBadRequest errMsg err), tr))
                            else
                              (let tr = tr @ [Call_DisableExternalUser (User.Login u)] in
                               (Return (JSON StatusOK
                                  (Message ''User disabled without any updates in the information'')),
                                tr)))
                         else
                           (let upsertCmd = \<lparr>ExternalUser = user,
                                             SignupAllowed = setting_LDAPAllowSignup env\<rparr>;
                                err = bus_UpsertUserCommand env upsertCmd;
                                tr = tr @ [Dispatch_UpsertUserCommand upsertCmd] in
                            if err \<noteq> None then
                              (Return (Error StatusInternalServerError
                                 ''Failed to udpate the user'' err), tr)
                            else (Return (JSON StatusOK (Message ''user synced'')), tr))))))))"

definition GetUserFromLDAP :: "Env \<Rightarrow> ReqContext \<Rightarrow> outcome \<times> call list" where
  "GetUserFromLDAP env c =
     (if \<not> ldap_IsEnabled env then
        (Return (Error StatusBadRequest ''LDAP is not enabled'' None), [])
      else
        (let (ldapConfig, err) = getLDAPConfig env;
             tr = [Call_getLDAPConfig] in
         if err \<noteq> None then
           (Return (Error StatusBadRequest ''Failed to obtain the LDAP configuration'' err), tr)
         else
           (case ldapConfig of
              None \<Rightarrow> (Panic, tr)
            | Some cfg \<Rightarrow>
                (let tr = tr @ [Call_newLDAP (Servers cfg)];
                     username = Params c '':username'' in
                 if length username = 0 then
                   (Return (Error StatusBadRequest
                      ''Validation error. You must specify an username'' None), tr)
                 else
                   (let (user, serverConfig, err) = ldap_User env (Servers cfg) username;
                        tr = tr @ [Call_User username] in
                    case user of
                      None \<Rightarrow>
                        (Return (Error StatusNotFound
                           ''No user was found on the LDAP server(s)'' err), tr)
                    | Some usr \<Rightarrow>
                        (let tr = tr @ [Call_logger_Debug ''user found''];
                             (name, surname) = splitName (ExternalUserInfo.Name usr) in
                         case serverConfig of
                           None \<Rightarrow> (Panic, tr)
                         | Some sc \<Rightarrow>
                             (let u = \<lparr>LDAPUserDTO.Name =
                                         Some \<lparr>ConfigAttributeValue = AttributeMap.Name (Attr sc),
                                               LDAPAttributeValue = name\<rparr>,
                                       LDAPUserDTO.Surname =
                                         Some \<lparr>ConfigAttributeValue = AttributeMap.Surname (Attr sc),
                                               LDAPAttributeValue = surname\<rparr>,
                                       LDAPUserDTO.Email =
                                         Some \<lparr>ConfigAttributeValue = AttributeMap.Email (Attr sc),
                                               LDAPAttributeValue = ExternalUserInfo.Email usr\<rparr>,
                                       LDAPUserDTO.Username =
                                         Some \<lparr>ConfigAttributeValue = AttributeMap.Username (Attr sc),
                                               LDAPAttributeValue = ExternalUserInfo.Login usr\<rparr>,
                                       LDAPUserDTO.IsGrafanaAdmin = ExternalUserInfo.IsGrafanaAdmin usr,
                                       LDAPUserDTO.IsDisabled = ExternalUserInfo.IsDisabled usr,
                                       LDAPUserDTO.OrgRoles = [],
                                       LDAPUserDTO.Teams = []\<rparr>;
                                  orgRoles = mapOrgRoles usr (ServerConfig.Groups sc);
                                  u = u\<lparr>LDAPUserDTO.OrgRoles := orgRoles\<rparr>;
                                  tr = tr @ [Call_logger_Debug ''mapping org roles''];
                                  ((err, u), tr') = FetchOrgs env u;
                                  tr = tr @ tr' in
                              if err \<noteq> None then
                                (Return (Error StatusBadRequest
                                   ''An oganization was not found - Please verify your LDAP configuration''
                                   err), tr)
                              else
                                (let (cmdResult, err) =
                                       bus_GetTeamsForLDAPGroupCommand env (ExternalUserInfo.Groups usr);
                                     tr = tr @ [Dispatch_GetTeamsForLDAPGroupCommand
                                                  (ExternalUserInfo.Groups usr)] in
                                 if err \<noteq> Some ErrHandlerNotFound \<and> err \<noteq> None then
                                   (Return (Error StatusBadRequest
                                      ''Unable to find the teams for this user'' err), tr)
                                 else
                                   (let u = u\<lparr>LDAPUserDTO.Teams := cmdResult\<rparr> in
                                    (Return (JSON 200 (UserDTO u)), tr))))))))))"

subsection \<open>Notions used in the statements\<close>

text \<open>
  A role is resolved by a table of names when indexing the table with its organization id
  gives a name that is not empty; \<open>set_name\<close> is the assignment of the third loop of
  \<^verbatim>\<open>FetchOrgs\<close>.
\<close>

definition resolved :: "(int64 \<rightharpoonup> string) \<Rightarrow> RoleDTO \<Rightarrow> bool" where
  "resolved names r = (map_index names (OrgId r) \<noteq> [])"

definition set_name :: "(int64 \<rightharpoonup> string) \<Rightarrow> RoleDTO \<Rightarrow> RoleDTO" where
  "set_name names r = r\<lparr>OrgName := map_index names (OrgId r)\<rparr>"

subsection \<open>Concrete inputs\<close>

text \<open>
  An environment in which LDAP is enabled, the user store knows the user \<open>alice\<close>, the
  directory does not, and the organization store holds the organization 1. The other
  environments change one collaborator each.
\<close>

definition cfg0 :: Config where
  "cfg0 = \<lparr>Servers = []\<rparr>"

definition env0 :: Env where
  "env0 = \<lparr>ldap_IsEnabled = True,
           ldap_ReloadConfig = None,
           getLDAPConfig = (Some cfg0, None),
           ldap_Ping = (\<lambda>servers. ([], None)),
           ldap_User = (\<lambda>servers username. (None, None, Some ErrCouldNotFindUser)),
           bus_GetUserByIdQuery = (\<lambda>userId. (Some \<lparr>User.Login = ''alice''\<rparr>, None)),
           bus_UpsertUserCommand = (\<lambda>cmd. None),
           bus_SearchOrgsQuery = (\<lambda>ids. ([\<lparr>Id = 1, Org.Name = ''Main Org.''\<rparr>], None)),
           bus_GetTeamsForLDAPGroupCommand = (\<lambda>groups. ([], Some ErrHandlerNotFound)),
           setting_AdminUser = ''admin'',
           setting_LDAPAllowSignup = True,
           error_Error = (\<lambda>e. ''error'')\<rparr>"

definition env_noname :: Env where
  "env_noname = env0\<lparr>bus_SearchOrgsQuery := (\<lambda>ids. ([\<lparr>Id = 1, Org.Name = []\<rparr>], None))\<rparr>"

definition env_admin :: Env where
  "env_admin = env0\<lparr>setting_AdminUser := ''alice''\<rparr>"

definition env_unreachable :: Env where
  "env_unreachable =
     env0\<lparr>ldap_User := (\<lambda>servers username. (None, None, Some (OtherError ''connection refused'')))\<rparr>"

definition env_disabled :: Env where
  "env_disabled = env0\<lparr>ldap_IsEnabled := False\<rparr>"

definition ctx0 :: ReqContext where
  "ctx0 = \<lparr>Params = (\<lambda>k. ''alice''), ParamsInt64 = (\<lambda>k. 42)\<rparr>"

definition role0 :: "int64 \<Rightarrow> RoleDTO" where
  "role0 orgId = \<lparr>OrgId = orgId, OrgName = [], RoleDTO.OrgRole = ''Editor'',
                  RoleDTO.GroupDN = ''cn=editors,ou=groups,dc=grafana,dc=org''\<rparr>"

definition dto0 :: "RoleDTO list \<Rightarrow> LDAPUserDTO" where
  "dto0 roles = \<lparr>LDAPUserDTO.Name = None, LDAPUserDTO.Surname = None, LDAPUserDTO.Email = None,
                 LDAPUserDTO.Username = None, LDAPUserDTO.IsGrafanaAdmin = None,
                 LDAPUserDTO.IsDisabled = False, LDAPUserDTO.OrgRoles = roles,
                 LDAPUserDTO.Teams = []\<rparr>"

definition user0 :: "(int64 \<rightharpoonup> RoleType) \<Rightarrow> ExternalUserInfo" where
  "user0 roles = \<lparr>ExternalUserInfo.Name = ''Ada Lovelace'', ExternalUserInfo.Email = ''ada@grafana.org'',
                  ExternalUserInfo.Login = ''alice'', ExternalUserInfo.IsGrafanaAdmin = None,
                  ExternalUserInfo.IsDisabled = False, ExternalUserInfo.OrgRoles = roles,
                  ExternalUserInfo.Groups = []\<rparr>"

definition group0 :: "int64 \<Rightarrow> RoleType \<Rightarrow> GroupToOrgRole" where
  "group0 orgId role = \<lparr>GroupToOrgRole.GroupDN = ''cn=editors,ou=groups,dc=grafana,dc=org'',
                        OrgID = orgId, GroupToOrgRole.OrgRole = role\<rparr>"

definition env_found :: Env where
  "env_found = env0\<lparr>ldap_User := (\<lambda>servers username. (Some (user0 [1 \<mapsto> ''Editor'']), None, None))\<rparr>"

section \<open>Properties\<close>

subsection \<open>Name splitting\<close>

text \<open>
  The tokens of the modelled \<open>SplitString\<close> are not empty and hold no whitespace.
\<close>

lemma tokens_no_space:
  "\<forall>c \<in> set cur. \<not> isSpace c \<Longrightarrow>
     \<forall>t \<in> set (tokens cur cs). t \<noteq> [] \<and> (\<forall>c \<in> set t. \<not> isSpace c)"
proof (induction cs arbitrary: cur)
  case Nil
  then show ?case by simp
next
  case (Cons c cs)
  have e: "\<forall>t \<in> set (tokens [] cs). t \<noteq> [] \<and> (\<forall>c \<in> set t. \<not> isSpace c)"
    using Cons.IH[of "[]"] by simp
  show ?case
  proof (cases "isSpace c")
    case True
    with e Cons.prems show ?thesis by simp
  next
    case False
    with Cons.prems have "\<forall>x \<in> set (cur @ [c]). \<not> isSpace x" by simp
    from Cons.IH[OF this] False show ?thesis by simp
  qed
qed

lemma SplitString_tokens:
  "\<forall>t \<in> set (SplitString str). t \<noteq> [] \<and> (\<forall>c \<in> set t. \<not> isSpace c)"
  unfolding SplitString_def using tokens_no_space[of "[]" str] by simp

text \<open>
  Claim C9. \<open>splitName\<close> returns two empty strings when the name splits into no token,
  the token and the empty string when it splits into one token, and the first two tokens
  when it splits into two or more, whatever follows them. The empty name gives two empty
  strings, \<open>Ada\<close> gives \<open>Ada\<close> and the empty string, and \<open>Ada Lovelace Extra\<close> gives
  \<open>Ada\<close> and \<open>Lovelace\<close>.
\<close>

theorem splitName_tokens:
  "splitName name =
     (case SplitString name of
        [] \<Rightarrow> ([], [])
      | [t] \<Rightarrow> (t, [])
      | t1 # t2 # rest \<Rightarrow> (t1, t2))
   \<and> splitName '''' = ('''', '''')
   \<and> splitName ''Ada'' = (''Ada'', '''')
   \<and> splitName ''Ada Lovelace Extra'' = (''Ada'', ''Lovelace'')"
proof -
  have "splitName name =
     (case SplitString name of
        [] \<Rightarrow> ([], [])
      | [t] \<Rightarrow> (t, [])
      | t1 # t2 # rest \<Rightarrow> (t1, t2))"
    by (simp add: splitName_def Let_def split: list.splits)
  moreover have "splitName '''' = ('''', '''')"
    by (simp add: splitName_def SplitString_def)
  moreover have "splitName ''Ada'' = (''Ada'', '''')"
    by (simp add: splitName_def SplitString_def isSpace_def)
  moreover have "splitName ''Ada Lovelace Extra'' = (''Ada'', ''Lovelace'')"
    by (simp add: splitName_def SplitString_def isSpace_def)
  ultimately show ?thesis by blast
qed

theorem splitName_tokens_witness:
  "SplitString ''Ada Lovelace Extra'' = [''Ada'', ''Lovelace'', ''Extra'']
   \<and> splitName ''Ada Lovelace Extra'' = (''Ada'', ''Lovelace'')"
  using splitName_tokens[of "''Ada Lovelace Extra''"]
  by (simp add: SplitString_def isSpace_def)

subsection \<open>Group matching\<close>

text \<open>
  Claim C5. A rule matches a user exactly when indexing the user's roles with the rule's
  organization gives the rule's role. Two users for whom that index gives the same role
  have the same outcome for the rule, and changing or removing the role of any other
  organization does not change the outcome.
\<close>

theorem isMatchToLDAPGroup_iff:
  "(isMatchToLDAPGroup u r \<longleftrightarrow>
      map_index (ExternalUserInfo.OrgRoles u) (OrgID r) = GroupToOrgRole.OrgRole r)
   \<and> (map_index (ExternalUserInfo.OrgRoles u) (OrgID r)
        = map_index (ExternalUserInfo.OrgRoles u') (OrgID r)
      \<longrightarrow> isMatchToLDAPGroup u r = isMatchToLDAPGroup u' r)
   \<and> (org \<noteq> OrgID r \<longrightarrow>
        isMatchToLDAPGroup (u\<lparr>ExternalUserInfo.OrgRoles := (ExternalUserInfo.OrgRoles u)(org := v)\<rparr>) r
          = isMatchToLDAPGroup u r)"
  by (simp add: isMatchToLDAPGroup_def map_index_def)

theorem isMatchToLDAPGroup_iff_witness:
  "isMatchToLDAPGroup (user0 [1 \<mapsto> ''Editor'']) (group0 1 ''Editor'')
   \<and> (2::int64) \<noteq> OrgID (group0 1 ''Editor'')
   \<and> isMatchToLDAPGroup (user0 [1 \<mapsto> ''Editor'', 2 \<mapsto> ''Admin'']) (group0 1 ''Editor'')"
  using isMatchToLDAPGroup_iff[of "user0 [1 \<mapsto> ''Editor'']" "group0 1 ''Editor''"
          "user0 [1 \<mapsto> ''Editor'', 2 \<mapsto> ''Admin'']" 2 "Some ''Admin''"]
  by (simp add: user0_def group0_def map_index_def isMatchToLDAPGroup_def)

lemma foldl_orgRoles_step:
  "foldl (orgRoles_step u) acc R =
     acc @ map (\<lambda>r. \<lparr>OrgId = OrgID r, OrgName = [],
                     RoleDTO.OrgRole = (if isMatchToLDAPGroup u r then GroupToOrgRole.OrgRole r else []),
                     RoleDTO.GroupDN = GroupToOrgRole.GroupDN r\<rparr>) R"
  by (induction R arbitrary: acc)
     (auto simp: orgRoles_step_def RoleDTO_zero_def isMatchToLDAPGroup_def)

text \<open>
  Claim C4. The loop over the rules emits as many roles as there are rules, one for each
  rule and in the order of the rules. Each carries the organization id and the group DN
  of its rule and no organization name; its role is the rule's role when the rule
  matches and the empty role otherwise.
\<close>

theorem mapOrgRoles_one_per_rule:
  "length (mapOrgRoles u R) = length R
   \<and> mapOrgRoles u R =
       map (\<lambda>r. \<lparr>OrgId = OrgID r, OrgName = [],
                 RoleDTO.OrgRole = (if isMatchToLDAPGroup u r then GroupToOrgRole.OrgRole r else []),
                 RoleDTO.GroupDN = GroupToOrgRole.GroupDN r\<rparr>) R"
  by (simp add: mapOrgRoles_def foldl_orgRoles_step)

theorem mapOrgRoles_one_per_rule_witness:
  "map RoleDTO.OrgRole (mapOrgRoles (user0 [1 \<mapsto> ''Editor'']) [group0 1 ''Editor'', group0 1 ''Admin'', group0 2 ''Viewer''])
     = [''Editor'', '''', '''']
   \<and> map OrgId (mapOrgRoles (user0 [1 \<mapsto> ''Editor'']) [group0 1 ''Editor'', group0 1 ''Admin'', group0 2 ''Viewer''])
     = [1, 1, 2]"
  using mapOrgRoles_one_per_rule[of "user0 [1 \<mapsto> ''Editor'']" "[group0 1 ''Editor'', group0 1 ''Admin'', group0 2 ''Viewer'']"]
  by (simp add: user0_def group0_def map_index_def isMatchToLDAPGroup_def)

subsection \<open>FetchOrgs\<close>

lemma collect_orgIds_map: "collect_orgIds roles = map OrgId roles"
proof -
  have "foldl (\<lambda>orgIds r. orgIds @ [OrgId r]) acc roles = acc @ map OrgId roles" for acc
    by (induction roles arbitrary: acc) simp_all
  then show ?thesis by (simp add: collect_orgIds_def)
qed

lemma dom_foldl_upd:
  "dom (foldl (\<lambda>m org. m(Id org \<mapsto> Org.Name org)) m0 result) = dom m0 \<union> Id ` set result"
  by (induction result arbitrary: m0) auto

lemma dom_orgNamesById: "dom (orgNamesById result) = Id ` set result"
  by (simp add: orgNamesById_def dom_foldl_upd)

lemma orgNamesById_map_of:
  "orgNamesById result = map_of (rev (map (\<lambda>org. (Id org, Org.Name org)) result))"
proof -
  have "foldl (\<lambda>m org. m(Id org \<mapsto> Org.Name org)) m0 result
          = m0 ++ map_of (rev (map (\<lambda>org. (Id org, Org.Name org)) result))" for m0
    by (induction result arbitrary: m0) (simp_all add: map_add_upd_left)
  then show ?thesis by (simp add: orgNamesById_def)
qed

lemma not_resolved_iff:
  "\<not> resolved (orgNamesById result) r \<longleftrightarrow>
     OrgId r \<notin> Id ` set result \<or> orgNamesById result (OrgId r) = Some []"
  unfolding resolved_def map_index_def dom_orgNamesById[symmetric]
  by (auto split: option.splits)

text \<open>
  The third loop sets the names of the roles up to the first one that is not resolved,
  and returns the error for that one.
\<close>

lemma fill_orgNames_eq:
  "i \<le> length roles \<Longrightarrow>
   fill_orgNames names i roles =
     (case dropWhile (resolved names) (drop i roles) of
        [] \<Rightarrow> None
      | r # rest \<Rightarrow> Some (errOrganizationNotFound (OrgId r)),
      take i roles @ map (set_name names) (takeWhile (resolved names) (drop i roles))
        @ dropWhile (resolved names) (drop i roles))"
proof (induction names i roles rule: fill_orgNames.induct)
  case (1 names i roles)
  show ?case
  proof (cases "i < length roles")
    case False
    with "1.prems" have "i = length roles" by simp
    then show ?thesis by (subst fill_orgNames.simps) simp
  next
    case True
    then have d: "drop i roles = roles ! i # drop (Suc i) roles"
      by (simp add: Cons_nth_drop_Suc)
    show ?thesis
    proof (cases "resolved names (roles ! i)")
      case False
      with True d show ?thesis
        by (subst fill_orgNames.simps) (simp add: resolved_def Let_def id_take_nth_drop[symmetric])
    next
      case r: True
      let ?roles' = "roles[i := (roles ! i)\<lparr>OrgName := map_index names (OrgId (roles ! i))\<rparr>]"
      have ih: "fill_orgNames names (Suc i) ?roles' =
         (case dropWhile (resolved names) (drop (Suc i) ?roles') of
            [] \<Rightarrow> None
          | r # rest \<Rightarrow> Some (errOrganizationNotFound (OrgId r)),
          take (Suc i) ?roles' @ map (set_name names) (takeWhile (resolved names) (drop (Suc i) ?roles'))
            @ dropWhile (resolved names) (drop (Suc i) ?roles'))"
      proof (rule "1.IH"[OF True refl refl])
        show "map_index names (OrgId (roles ! i)) \<noteq> []" using r by (simp add: resolved_def)
        show "Suc i \<le> length ?roles'" using True by simp
      qed
      have t: "take (Suc i) ?roles' = take i roles @ [set_name names (roles ! i)]"
        using True by (simp add: take_Suc_conv_app_nth set_name_def)
      have d': "drop (Suc i) ?roles' = drop (Suc i) roles" by simp
      have "fill_orgNames names i roles = fill_orgNames names (Suc i) ?roles'"
        using True r by (subst fill_orgNames.simps) (simp add: resolved_def Let_def)
      then show ?thesis
        using ih r by (simp only: t d' d) simp
    qed
  qed
qed

lemma fill_orgNames_error:
  "fst (fill_orgNames names 0 roles) =
     (case dropWhile (resolved names) roles of
        [] \<Rightarrow> None | r # rest \<Rightarrow> Some (errOrganizationNotFound (OrgId r)))"
  by (simp add: fill_orgNames_eq)

lemma fill_orgNames_roles:
  "snd (fill_orgNames names 0 roles) =
     map (set_name names) (takeWhile (resolved names) roles) @ dropWhile (resolved names) roles"
  by (simp add: fill_orgNames_eq)

lemma dropWhile_first:
  "dropWhile P xs = r # rest \<Longrightarrow>
     \<exists>k<length xs. xs ! k = r \<and> \<not> P r \<and> takeWhile P xs = take k xs \<and> dropWhile P xs = drop k xs"
proof (induction xs)
  case Nil
  then show ?case by simp
next
  case (Cons x xs)
  show ?case
  proof (cases "P x")
    case True
    with Cons.prems have "dropWhile P xs = r # rest" by simp
    from Cons.IH[OF this] obtain k where "k < length xs" "xs ! k = r" "\<not> P r"
      "takeWhile P xs = take k xs" "dropWhile P xs = drop k xs" by blast
    with True have "Suc k < length (x # xs) \<and> (x # xs) ! Suc k = r \<and> \<not> P r \<and>
      takeWhile P (x # xs) = take (Suc k) (x # xs) \<and> dropWhile P (x # xs) = drop (Suc k) (x # xs)"
      by simp
    then show ?thesis by blast
  next
    case False
    with Cons.prems have "0 < length (x # xs) \<and> (x # xs) ! 0 = r \<and> \<not> P r \<and>
      takeWhile P (x # xs) = take 0 (x # xs) \<and> dropWhile P (x # xs) = drop 0 (x # xs)"
      by simp
    then show ?thesis by blast
  qed
qed

lemma FetchOrgs_ok_dispatch:
  assumes "bus_SearchOrgsQuery env (collect_orgIds (LDAPUserDTO.OrgRoles user)) = (result, None)"
  shows "FetchOrgs env user =
           ((fst (fill_orgNames (orgNamesById result) 0 (LDAPUserDTO.OrgRoles user)),
             user\<lparr>LDAPUserDTO.OrgRoles :=
                    snd (fill_orgNames (orgNamesById result) 0 (LDAPUserDTO.OrgRoles user))\<rparr>),
            [Dispatch_SearchOrgsQuery (collect_orgIds (LDAPUserDTO.OrgRoles user))])"
  using assms by (simp add: FetchOrgs_def Let_def split: prod.splits)

lemma FetchOrgs_err_dispatch:
  assumes "bus_SearchOrgsQuery env (collect_orgIds (LDAPUserDTO.OrgRoles user)) = (result, Some e)"
  shows "FetchOrgs env user =
           ((Some e, user), [Dispatch_SearchOrgsQuery (collect_orgIds (LDAPUserDTO.OrgRoles user))])"
  using assms by (simp add: FetchOrgs_def Let_def)

text \<open>
  Claim C2, as stated, fails: the organization store answers with the organization 1
  under an empty name, the only role refers to the organization 1, and \<open>FetchOrgs\<close>
  returns the error that the organization 1 was not found.
\<close>

theorem FetchOrgs_empty_name_counterexample:
  "fst (fst (FetchOrgs env_noname (dto0 [role0 1]))) = Some (errOrganizationNotFound 1)
   \<and> map OrgId (LDAPUserDTO.OrgRoles (dto0 [role0 1])) = [1]
   \<and> map Id (fst (bus_SearchOrgsQuery env_noname (collect_orgIds [role0 1]))) = [1]"
  by (simp add: FetchOrgs_def Let_def collect_orgIds_def env_noname_def env0_def dto0_def role0_def
        orgNamesById_def map_index_def fill_orgNames.simps)

text \<open>
  Claim C2, amended. When the query to the organization store succeeds, \<open>FetchOrgs\<close>
  fails with the organization-not-found error if and only if some role's organization id
  is absent from the result or is recorded there with an empty name, however many other
  ids are resolved.
\<close>

theorem FetchOrgs_not_found_iff:
  assumes "bus_SearchOrgsQuery env (collect_orgIds (LDAPUserDTO.OrgRoles user)) = (result, None)"
  shows "(\<exists>orgId. fst (fst (FetchOrgs env user)) = Some (errOrganizationNotFound orgId)) \<longleftrightarrow>
         (\<exists>r \<in> set (LDAPUserDTO.OrgRoles user).
            OrgId r \<notin> Id ` set result \<or> orgNamesById result (OrgId r) = Some [])"
proof -
  let ?roles = "LDAPUserDTO.OrgRoles user"
  let ?names = "orgNamesById result"
  have e: "fst (fst (FetchOrgs env user)) =
        (case dropWhile (resolved ?names) ?roles of
           [] \<Rightarrow> None | r # rest \<Rightarrow> Some (errOrganizationNotFound (OrgId r)))"
    by (simp add: FetchOrgs_ok_dispatch[OF assms] fill_orgNames_error)
  have "(\<exists>orgId. fst (fst (FetchOrgs env user)) = Some (errOrganizationNotFound orgId)) \<longleftrightarrow>
        dropWhile (resolved ?names) ?roles \<noteq> []"
  proof -
    have "(\<exists>orgId. (case xs of [] \<Rightarrow> None | r # rest \<Rightarrow> Some (errOrganizationNotFound (OrgId r)))
              = Some (errOrganizationNotFound orgId)) \<longleftrightarrow> xs \<noteq> []" for xs :: "RoleDTO list"
      by (cases xs) auto
    then show ?thesis unfolding e .
  qed
  also have "\<dots> \<longleftrightarrow> (\<exists>r \<in> set ?roles. \<not> resolved ?names r)"
    by (simp add: dropWhile_eq_Nil_conv)
  also have "\<dots> \<longleftrightarrow> (\<exists>r \<in> set ?roles.
            OrgId r \<notin> Id ` set result \<or> ?names (OrgId r) = Some [])"
    by (simp only: not_resolved_iff)
  finally show ?thesis .
qed

theorem FetchOrgs_not_found_iff_witness:
  "bus_SearchOrgsQuery env0 (collect_orgIds (LDAPUserDTO.OrgRoles (dto0 [role0 1, role0 2])))
     = ([\<lparr>Id = 1, Org.Name = ''Main Org.''\<rparr>], None)
   \<and> fst (fst (FetchOrgs env0 (dto0 [role0 1, role0 2]))) = Some (errOrganizationNotFound 2)
   \<and> OrgId (role0 2) \<notin> Id ` set [\<lparr>Id = 1, Org.Name = ''Main Org.''\<rparr>]"
proof -
  have h: "bus_SearchOrgsQuery env0 (collect_orgIds (LDAPUserDTO.OrgRoles (dto0 [role0 1, role0 2])))
     = ([\<lparr>Id = 1, Org.Name = ''Main Org.''\<rparr>], None)"
    by (simp add: env0_def)
  show ?thesis
    using FetchOrgs_not_found_iff[OF h] h
    by (simp add: FetchOrgs_def Let_def collect_orgIds_def env0_def dto0_def role0_def
        orgNamesById_def map_index_def fill_orgNames.simps)
qed

text \<open>
  Claim C3, as stated, fails: with the roles of the organizations 1 and 2 and a store
  that holds only the organization 1, \<open>FetchOrgs\<close> returns the error for the
  organization 2 after it has written the name of the organization 1 into the first role.
\<close>

theorem FetchOrgs_partial_counterexample:
  "fst (fst (FetchOrgs env0 (dto0 [role0 1, role0 2]))) = Some (errOrganizationNotFound 2)
   \<and> map OrgName (LDAPUserDTO.OrgRoles (dto0 [role0 1, role0 2])) = ['''', '''']
   \<and> map OrgName (LDAPUserDTO.OrgRoles (snd (fst (FetchOrgs env0 (dto0 [role0 1, role0 2])))))
       = [''Main Org.'', '''']"
  by (simp add: FetchOrgs_def Let_def collect_orgIds_def env0_def dto0_def role0_def
        orgNamesById_def map_index_def fill_orgNames.simps)

text \<open>
  Claim C3, amended. When \<open>FetchOrgs\<close> fails, only the list of roles of the DTO can
  differ. If the query to the organization store failed, no role is changed. Otherwise
  the error names the first role whose organization id is not resolved: this role and
  every role after it are unchanged, and each role before it has its organization name
  set to the resolved name and keeps its other fields.
\<close>

theorem FetchOrgs_failure_mutation:
  assumes "FetchOrgs env user = ((Some e, user'), tr)"
    and "bus_SearchOrgsQuery env (collect_orgIds (LDAPUserDTO.OrgRoles user)) = (result, err)"
  shows "user' = user\<lparr>LDAPUserDTO.OrgRoles := LDAPUserDTO.OrgRoles user'\<rparr> \<and>
         (if err \<noteq> None then LDAPUserDTO.OrgRoles user' = LDAPUserDTO.OrgRoles user
          else (\<exists>k < length (LDAPUserDTO.OrgRoles user).
                  map_index (orgNamesById result) (OrgId (LDAPUserDTO.OrgRoles user ! k)) = [] \<and>
                  e = errOrganizationNotFound (OrgId (LDAPUserDTO.OrgRoles user ! k)) \<and>
                  (\<forall>r \<in> set (take k (LDAPUserDTO.OrgRoles user)).
                     map_index (orgNamesById result) (OrgId r) \<noteq> []) \<and>
                  LDAPUserDTO.OrgRoles user' =
                    map (\<lambda>r. r\<lparr>OrgName := map_index (orgNamesById result) (OrgId r)\<rparr>)
                        (take k (LDAPUserDTO.OrgRoles user))
                    @ drop k (LDAPUserDTO.OrgRoles user)))"
proof (cases err)
  case (Some e')
  with assms show ?thesis
    by (simp add: FetchOrgs_err_dispatch)
next
  case None
  let ?roles = "LDAPUserDTO.OrgRoles user"
  let ?names = "orgNamesById result"
  from assms None have f: "fst (fill_orgNames ?names 0 ?roles) = Some e"
    and u: "user' = user\<lparr>LDAPUserDTO.OrgRoles := snd (fill_orgNames ?names 0 ?roles)\<rparr>"
    by (simp_all add: FetchOrgs_ok_dispatch)
  from f obtain r rest where d: "dropWhile (resolved ?names) ?roles = r # rest"
    and e: "e = errOrganizationNotFound (OrgId r)"
    by (auto simp: fill_orgNames_error split: list.splits)
  from dropWhile_first[OF d] obtain k where k: "k < length ?roles" "?roles ! k = r"
    "\<not> resolved ?names r" "takeWhile (resolved ?names) ?roles = take k ?roles"
    "dropWhile (resolved ?names) ?roles = drop k ?roles"
    by blast
  have pre: "\<forall>r \<in> set (take k ?roles). map_index ?names (OrgId r) \<noteq> []"
    using k(4) set_takeWhileD[of _ "resolved ?names" ?roles] by (auto simp: resolved_def)
  have roles': "LDAPUserDTO.OrgRoles user' =
      map (\<lambda>r. r\<lparr>OrgName := map_index ?names (OrgId r)\<rparr>) (take k ?roles) @ drop k ?roles"
    using u k(4,5) by (simp add: fill_orgNames_roles set_name_def[abs_def])
  have "user' = user\<lparr>LDAPUserDTO.OrgRoles := LDAPUserDTO.OrgRoles user'\<rparr>"
    using u by simp
  moreover have "\<exists>k < length ?roles.
                  map_index ?names (OrgId (?roles ! k)) = [] \<and>
                  e = errOrganizationNotFound (OrgId (?roles ! k)) \<and>
                  (\<forall>r \<in> set (take k ?roles). map_index ?names (OrgId r) \<noteq> []) \<and>
                  LDAPUserDTO.OrgRoles user' =
                    map (\<lambda>r. r\<lparr>OrgName := map_index ?names (OrgId r)\<rparr>) (take k ?roles)
                    @ drop k ?roles"
    using k(1,2,3) e pre roles' by (auto simp: resolved_def)
  ultimately show ?thesis using None by simp
qed

theorem FetchOrgs_failure_mutation_witness:
  "FetchOrgs env0 (dto0 [role0 1, role0 2]) =
     ((Some (errOrganizationNotFound 2),
       dto0 [(role0 1)\<lparr>OrgName := ''Main Org.''\<rparr>, role0 2]),
      [Dispatch_SearchOrgsQuery [1, 2]])
   \<and> bus_SearchOrgsQuery env0 (collect_orgIds (LDAPUserDTO.OrgRoles (dto0 [role0 1, role0 2])))
       = ([\<lparr>Id = 1, Org.Name = ''Main Org.''\<rparr>], None)
   \<and> map_index (orgNamesById [\<lparr>Id = 1, Org.Name = ''Main Org.''\<rparr>]) 2 = []"
proof -
  have f: "FetchOrgs env0 (dto0 [role0 1, role0 2]) =
     ((Some (errOrganizationNotFound 2),
       dto0 [(role0 1)\<lparr>OrgName := ''Main Org.''\<rparr>, role0 2]),
      [Dispatch_SearchOrgsQuery [1, 2]])"
    by (simp add: FetchOrgs_def Let_def collect_orgIds_def env0_def dto0_def role0_def
        orgNamesById_def map_index_def fill_orgNames.simps)
  have h: "bus_SearchOrgsQuery env0 (collect_orgIds (LDAPUserDTO.OrgRoles (dto0 [role0 1, role0 2])))
       = ([\<lparr>Id = 1, Org.Name = ''Main Org.''\<rparr>], None)"
    by (simp add: env0_def)
  show ?thesis
    using FetchOrgs_failure_mutation[OF f h] f h
    by (simp add: orgNamesById_def map_index_def)
qed

subsection \<open>PostSyncUserWithLDAP\<close>

text \<open>
  Claim C6. When the directory answers that it could not find the user and the user's
  login is the configured super administrator, the handler logs and returns the error
  of refusal, with status 400, and neither disables nor upserts the user.
\<close>

theorem PostSync_refuses_admin:
  assumes "ldap_IsEnabled env"
    and "getLDAPConfig env = (Some cfg, None)"
    and "bus_GetUserByIdQuery env (ParamsInt64 c '':id'') = (Some u, None)"
    and "ldap_User env (Servers cfg) (User.Login u) = (user, sc, Some ErrCouldNotFindUser)"
    and "setting_AdminUser env = User.Login u"
  shows "fst (PostSyncUserWithLDAP env c) =
           Return (Error StatusBadRequest (refuse_message (User.Login u)) (Some ErrCouldNotFindUser))
         \<and> snd (PostSyncUserWithLDAP env c) =
             [Call_getLDAPConfig,
              Dispatch_GetUserByIdQuery_value (ParamsInt64 c '':id''),
              Dispatch_GetUserByIdQuery (ParamsInt64 c '':id''),
              Call_newLDAP (Servers cfg),
              Call_User (User.Login u),
              Call_logger_Error (refuse_message (User.Login u))]
         \<and> filter is_disable (snd (PostSyncUserWithLDAP env c)) = []
         \<and> filter is_upsert (snd (PostSyncUserWithLDAP env c)) = []"
  using assms by (simp add: PostSyncUserWithLDAP_def Let_def)

theorem PostSync_refuses_admin_witness:
  "ldap_IsEnabled env_admin
   \<and> setting_AdminUser env_admin = ''alice''
   \<and> PostSyncUserWithLDAP env_admin ctx0 =
       (Return (Error 400 (refuse_message ''alice'') (Some ErrCouldNotFindUser)),
        [Call_getLDAPConfig, Dispatch_GetUserByIdQuery_value 42, Dispatch_GetUserByIdQuery 42,
         Call_newLDAP [], Call_User ''alice'', Call_logger_Error (refuse_message ''alice'')])"
proof -
  have h: "ldap_IsEnabled env_admin" "getLDAPConfig env_admin = (Some cfg0, None)"
    "bus_GetUserByIdQuery env_admin (ParamsInt64 ctx0 '':id'') = (Some \<lparr>User.Login = ''alice''\<rparr>, None)"
    "ldap_User env_admin (Servers cfg0) (User.Login \<lparr>User.Login = ''alice''\<rparr>)
       = (None, None, Some ErrCouldNotFindUser)"
    "setting_AdminUser env_admin = User.Login \<lparr>User.Login = ''alice''\<rparr>"
    by (simp_all add: env_admin_def env0_def)
  show ?thesis
    using PostSync_refuses_admin[OF h] h(1,5)
    by (simp add: prod_eq_iff cfg0_def ctx0_def StatusBadRequest_def)
qed

text \<open>
  Claim C7. When the directory answers that it could not find the user and the user's
  login is not the super administrator, the handler issues exactly one call that
  disables this login, dispatches no upsert and answers with status 200.
\<close>

theorem PostSync_disables_absent_user:
  assumes "ldap_IsEnabled env"
    and "getLDAPConfig env = (Some cfg, None)"
    and "bus_GetUserByIdQuery env (ParamsInt64 c '':id'') = (Some u, None)"
    and "ldap_User env (Servers cfg) (User.Login u) = (user, sc, Some ErrCouldNotFindUser)"
    and "setting_AdminUser env \<noteq> User.Login u"
  shows "fst (PostSyncUserWithLDAP env c) =
           Return (JSON StatusOK (Message ''User disabled without any updates in the information''))
         \<and> snd (PostSyncUserWithLDAP env c) =
             [Call_getLDAPConfig,
              Dispatch_GetUserByIdQuery_value (ParamsInt64 c '':id''),
              Dispatch_GetUserByIdQuery (ParamsInt64 c '':id''),
              Call_newLDAP (Servers cfg),
              Call_User (User.Login u),
              Call_DisableExternalUser (User.Login u)]
         \<and> filter is_disable (snd (PostSyncUserWithLDAP env c))
             = [Call_DisableExternalUser (User.Login u)]
         \<and> filter is_upsert (snd (PostSyncUserWithLDAP env c)) = []"
  using assms by (simp add: PostSyncUserWithLDAP_def Let_def)

theorem PostSync_disables_absent_user_witness:
  "ldap_IsEnabled env0
   \<and> setting_AdminUser env0 \<noteq> ''alice''
   \<and> PostSyncUserWithLDAP env0 ctx0 =
       (Return (JSON 200 (Message ''User disabled without any updates in the information'')),
        [Call_getLDAPConfig, Dispatch_GetUserByIdQuery_value 42, Dispatch_GetUserByIdQuery 42,
         Call_newLDAP [], Call_User ''alice'', Call_DisableExternalUser ''alice''])"
proof -
  have h: "ldap_IsEnabled env0" "getLDAPConfig env0 = (Some cfg0, None)"
    "bus_GetUserByIdQuery env0 (ParamsInt64 ctx0 '':id'') = (Some \<lparr>User.Login = ''alice''\<rparr>, None)"
    "ldap_User env0 (Servers cfg0) (User.Login \<lparr>User.Login = ''alice''\<rparr>)
       = (None, None, Some ErrCouldNotFindUser)"
    "setting_AdminUser env0 \<noteq> User.Login \<lparr>User.Login = ''alice''\<rparr>"
    by (simp_all add: env0_def)
  show ?thesis
    using PostSync_disables_absent_user[OF h] h(1,5)
    by (simp add: prod_eq_iff cfg0_def ctx0_def StatusOK_def)
qed

text \<open>
  Claim C8. When the lookup in the directory returns no error, the handler dispatches
  exactly one upsert command, which carries the user the directory returned and the
  setting \<^verbatim>\<open>LDAPAllowSignup\<close>, and issues no disable call.
\<close>

theorem PostSync_upserts_found_user:
  assumes "ldap_IsEnabled env"
    and "getLDAPConfig env = (Some cfg, None)"
    and "bus_GetUserByIdQuery env (ParamsInt64 c '':id'') = (Some u, None)"
    and "ldap_User env (Servers cfg) (User.Login u) = (user, sc, None)"
  shows "fst (PostSyncUserWithLDAP env c) =
           (case bus_UpsertUserCommand env
                   \<lparr>ExternalUser = user, SignupAllowed = setting_LDAPAllowSignup env\<rparr> of
              None \<Rightarrow> Return (JSON StatusOK (Message ''user synced''))
            | Some e \<Rightarrow> Return (Error StatusInternalServerError ''Failed to udpate the user'' (Some e)))
         \<and> filter is_upsert (snd (PostSyncUserWithLDAP env c))
             = [Dispatch_UpsertUserCommand
                  \<lparr>ExternalUser = user, SignupAllowed = setting_LDAPAllowSignup env\<rparr>]
         \<and> filter is_disable (snd (PostSyncUserWithLDAP env c)) = []"
  using assms by (simp add: PostSyncUserWithLDAP_def Let_def split: option.splits)

theorem PostSync_upserts_found_user_witness:
  "ldap_IsEnabled env_found
   \<and> fst (PostSyncUserWithLDAP env_found ctx0) = Return (JSON 200 (Message ''user synced''))
   \<and> filter is_upsert (snd (PostSyncUserWithLDAP env_found ctx0))
       = [Dispatch_UpsertUserCommand
            \<lparr>ExternalUser = Some (user0 [1 \<mapsto> ''Editor'']), SignupAllowed = True\<rparr>]
   \<and> filter is_disable (snd (PostSyncUserWithLDAP env_found ctx0)) = []"
proof -
  have h: "ldap_IsEnabled env_found" "getLDAPConfig env_found = (Some cfg0, None)"
    "bus_GetUserByIdQuery env_found (ParamsInt64 ctx0 '':id'') = (Some \<lparr>User.Login = ''alice''\<rparr>, None)"
    "ldap_User env_found (Servers cfg0) (User.Login \<lparr>User.Login = ''alice''\<rparr>)
       = (Some (user0 [1 \<mapsto> ''Editor'']), None, None)"
    by (simp_all add: env_found_def env0_def)
  have s: "setting_LDAPAllowSignup env_found = True"
    "bus_UpsertUserCommand env_found cmd = None" for cmd
    by (simp_all add: env_found_def env0_def)
  show ?thesis
    using PostSync_upserts_found_user[OF h] h(1)
    by (simp add: s StatusOK_def)
qed

text \<open>
  Claim C1. The claim asks that any other error of the directory be returned to the
  caller without any mutation. The source does not do so: with a directory that
  answers \<open>connection refused\<close>, the handler dispatches an upsert command without a user
  and answers that the user was synced.
\<close>

theorem PostSync_other_error_upserts:
  "ldap_User env_unreachable (Servers cfg0) ''alice''
     = (None, None, Some (OtherError ''connection refused''))
   \<and> PostSyncUserWithLDAP env_unreachable ctx0 =
       (Return (JSON 200 (Message ''user synced'')),
        [Call_getLDAPConfig, Dispatch_GetUserByIdQuery_value 42, Dispatch_GetUserByIdQuery 42,
         Call_newLDAP [], Call_User ''alice'',
         Dispatch_UpsertUserCommand \<lparr>ExternalUser = None, SignupAllowed = True\<rparr>])"
  by (simp add: PostSyncUserWithLDAP_def Let_def env_unreachable_def env0_def cfg0_def ctx0_def
        StatusOK_def)

text \<open>
  The same for every error of the lookup other than \<^verbatim>\<open>ldap.ErrCouldNotFindUser\<close>.
\<close>

lemma PostSync_other_error_general:
  assumes "ldap_IsEnabled env"
    and "getLDAPConfig env = (Some cfg, None)"
    and "bus_GetUserByIdQuery env (ParamsInt64 c '':id'') = (Some u, None)"
    and "ldap_User env (Servers cfg) (User.Login u) = (user, sc, Some e)"
    and "e \<noteq> ErrCouldNotFindUser"
  shows "filter is_upsert (snd (PostSyncUserWithLDAP env c))
           = [Dispatch_UpsertUserCommand
                \<lparr>ExternalUser = user, SignupAllowed = setting_LDAPAllowSignup env\<rparr>]"
  using assms by (simp add: PostSyncUserWithLDAP_def Let_def)

subsection \<open>The check that LDAP is enabled\<close>

text \<open>
  Claim C10. When LDAP is not enabled, each of the four handlers returns the error
  response with status 400 and has called no collaborator.
\<close>

theorem disabled_LDAP_rejected:
  assumes "\<not> ldap_IsEnabled env"
  shows "ReloadLDAPCfg env = (Return (Error 400 ''LDAP is not enabled'' None), [])
       \<and> GetLDAPStatus env c = (Return (Error 400 ''LDAP is not enabled'' None), [])
       \<and> PostSyncUserWithLDAP env c = (Return (Error 400 ''LDAP is not enabled'' None), [])
       \<and> GetUserFromLDAP env c = (Return (Error 400 ''LDAP is not enabled'' None), [])"
  using assms
  by (simp add: ReloadLDAPCfg_def GetLDAPStatus_def PostSyncUserWithLDAP_def GetUserFromLDAP_def
        StatusBadRequest_def)

theorem disabled_LDAP_rejected_witness:
  "\<not> ldap_IsEnabled env_disabled
   \<and> ReloadLDAPCfg env_disabled = (Return (Error 400 ''LDAP is not enabled'' None), [])
   \<and> GetLDAPStatus env_disabled ctx0 = (Return (Error 400 ''LDAP is not enabled'' None), [])
   \<and> PostSyncUserWithLDAP env_disabled ctx0 = (Return (Error 400 ''LDAP is not enabled'' None), [])
   \<and> GetUserFromLDAP env_disabled ctx0 = (Return (Error 400 ''LDAP is not enabled'' None), [])"
proof -
  have h: "\<not> ldap_IsEnabled env_disabled" by (simp add: env_disabled_def env0_def)
  show ?thesis using disabled_LDAP_rejected[OF h, of ctx0] h by simp
qed

end
